theory Spec2Isabelle
  imports Complex_Main
begin

section \<open>Python values and library behaviour\<close>

text \<open>
  The program is Python. A \<^verbatim>\<open>str\<close> is the list of its code points, so that every
  character of Unicode is there; the string literals of the program are ASCII and are
  written \<open>ustr ''...''\<close>.
\<close>

type_synonym pystr = "nat list"

definition ustr :: "string \<Rightarrow> pystr" where
  "ustr cs = map of_char cs"

text \<open>
  A \<^verbatim>\<open>float\<close> is an IEEE double: a finite one is given by the real number it denotes
  (\<open>Finite 0\<close> is \<^verbatim>\<open>0.0\<close>), the others are \<^verbatim>\<open>-0.0\<close>, the two infinities and \<^verbatim>\<open>nan\<close>.
  Which reals are doubles, and how a decimal is rounded to one, is left to the functions
  that produce floats.
\<close>

datatype pyfloat = Finite real | NegZero | PosInf | NegInf | NaN

fun finite_value :: "pyfloat \<Rightarrow> real" where
  "finite_value (Finite x) = x"
| "finite_value f = 0"

text \<open>\<^verbatim>\<open>a < b\<close> and \<^verbatim>\<open>a > b\<close> on floats: false as soon as one of the two is \<^verbatim>\<open>nan\<close>.\<close>

fun float_lt :: "pyfloat \<Rightarrow> pyfloat \<Rightarrow> bool" where
  "float_lt NaN b = False"
| "float_lt a NaN = False"
| "float_lt PosInf b = False"
| "float_lt a PosInf = True"
| "float_lt a NegInf = False"
| "float_lt NegInf b = True"
| "float_lt a b = (finite_value a < finite_value b)"

definition float_gt :: "pyfloat \<Rightarrow> pyfloat \<Rightarrow> bool" where
  "float_gt a b = float_lt b a"

text \<open>Values that come out of \<^verbatim>\<open>json.loads\<close> are dynamically typed, so they are a datatype.\<close>

datatype json =
    JNull
  | JBool bool
  | JInt int
  | JFloat pyfloat
  | JStr pystr
  | JArr "json list"
  | JObj "(pystr \<times> json) list"

text \<open>The exception classes the modelled code can meet; all derive from \<^verbatim>\<open>Exception\<close>.\<close>

datatype exn =
    AttributeError
  | TypeError
  | ValueError
  | IndexError
  | OverflowError
  | JSONDecodeError
  | SqliteError

text \<open>
  What the Python library does is a parameter of the model wherever it is not spelled
  out here: \<^verbatim>\<open>json.loads\<close> (\<open>None\<close> is JSONDecodeError); \<^verbatim>\<open>str\<close> on a value that is not
  already a string; \<^verbatim>\<open>float\<close> on a string (\<open>None\<close> is ValueError; the rounding to the
  nearest double, \<^verbatim>\<open>inf\<close> for a decimal too large, and the texts it accepts, among them
  \<^verbatim>\<open>nan\<close>, are the library's); the double nearest to an integer beyond \<open>2\<^sup>5\<^sup>3\<close>; and the
  Unicode tables behind \<^verbatim>\<open>str.isdigit\<close>, behind \<^verbatim>\<open>str.isspace\<close> (the whitespace of
  \<^verbatim>\<open>strip\<close> and \<^verbatim>\<open>split\<close>) and behind \<^verbatim>\<open>str.lower\<close>. A theorem below holds for every
  such library, under the hypotheses on it that the theorem states.
\<close>

record pylib =
  json_loads :: "pystr \<Rightarrow> json option"
  str_of :: "json \<Rightarrow> pystr"
  float_of_str :: "pystr \<Rightarrow> pyfloat option"
  float_of_int :: "int \<Rightarrow> real"
  str_isdigit :: "nat \<Rightarrow> bool"
  str_isspace :: "nat \<Rightarrow> bool"
  str_lower :: "pystr \<Rightarrow> pystr"

definition py_str :: "pylib \<Rightarrow> json \<Rightarrow> pystr" where
  "py_str L v = (case v of JStr s \<Rightarrow> s | _ \<Rightarrow> str_of L v)"

text \<open>Truth value testing (\<^verbatim>\<open>if x\<close>, \<^verbatim>\<open>not x\<close>, \<^verbatim>\<open>x or y\<close>).\<close>

fun truthy :: "json \<Rightarrow> bool" where
  "truthy JNull = False"
| "truthy (JBool b) = b"
| "truthy (JInt n) = (n \<noteq> 0)"
| "truthy (JFloat f) = (f \<noteq> Finite 0 \<and> f \<noteq> NegZero)"
| "truthy (JStr s) = (s \<noteq> [])"
| "truthy (JArr xs) = (xs \<noteq> [])"
| "truthy (JObj kvs) = (kvs \<noteq> [])"

text \<open>\<^verbatim>\<open>d.get(key, default)\<close>: only a dict has the method.\<close>

fun dict_get :: "json \<Rightarrow> pystr \<Rightarrow> json \<Rightarrow> exn + json" where
  "dict_get (JObj kvs) k d = Inr (case map_of kvs k of Some v \<Rightarrow> v | None \<Rightarrow> d)"
| "dict_get _ k d = Inl AttributeError"

text \<open>
  \<^verbatim>\<open>len(x)\<close> followed by \<^verbatim>\<open>for e in x\<close>: a list gives its elements, a dict its keys, a
  string its characters; anything else has no length (TypeError).
\<close>

fun py_iter :: "json \<Rightarrow> exn + json list" where
  "py_iter (JArr xs) = Inr xs"
| "py_iter (JObj kvs) = Inr (map (\<lambda>kv. JStr (fst kv)) kvs)"
| "py_iter (JStr s) = Inr (map (\<lambda>c. JStr [c]) s)"
| "py_iter _ = Inl TypeError"

subsection \<open>Strings\<close>

text \<open>\<^verbatim>\<open>s.strip()\<close>\<close>

definition strip :: "pylib \<Rightarrow> pystr \<Rightarrow> pystr" where
  "strip L s = rev (dropWhile (str_isspace L) (rev (dropWhile (str_isspace L) s)))"

definition startswith :: "pystr \<Rightarrow> pystr \<Rightarrow> bool" where
  "startswith s p = (take (length p) s = p)"

text \<open>\<^verbatim>\<open>sub in s\<close>.\<close>

fun contains :: "pystr \<Rightarrow> pystr \<Rightarrow> bool" where
  "contains [] sub = (sub = [])"
| "contains (c # cs) sub = (startswith (c # cs) sub \<or> contains cs sub)"

text \<open>\<^verbatim>\<open>s.split(sep)[0]\<close> for a non-empty separator: the text before its first occurrence.\<close>

fun split_head :: "pystr \<Rightarrow> pystr \<Rightarrow> pystr" where
  "split_head sep [] = []"
| "split_head sep (c # cs) = (if startswith (c # cs) sep then [] else c # split_head sep cs)"

text \<open>\<^verbatim>\<open>s.split()\<close>: the maximal runs of non-whitespace, in order.\<close>

fun split_ws :: "pylib \<Rightarrow> pystr \<Rightarrow> pystr \<Rightarrow> pystr list" where
  "split_ws L w [] = (if w = [] then [] else [w])"
| "split_ws L w (c # cs) =
     (if str_isspace L c then (if w = [] then split_ws L [] cs else w # split_ws L [] cs)
      else split_ws L (w @ [c]) cs)"

text \<open>\<^verbatim>\<open>s.replace(old, '')\<close> for a non-empty \<open>old\<close>: occurrences are removed left to right.\<close>

function remove_all :: "pystr \<Rightarrow> pystr \<Rightarrow> pystr" where
  "remove_all old [] = []"
| "remove_all old (c # cs) =
     (if old \<noteq> [] \<and> startswith (c # cs) old then remove_all old (drop (length old) (c # cs))
      else c # remove_all old cs)"
  by pat_completeness auto
termination
  by (relation "measure (\<lambda>(old, s). length s)") auto

section \<open>Data model\<close>

text \<open>
  An item request as \<^verbatim>\<open>read_input_file\<close> hands it on: the name is whatever JSON value
  the file had, the two numbers have been through \<^verbatim>\<open>float\<close>.
\<close>

record ItemRequest =
  name :: json
  max_price :: pyfloat
  min_seller_rating :: pyfloat

text \<open>
  The result dict \<^verbatim>\<open>{'platform', 'item', 'title', 'price', 'seller_rating', 'link'}\<close>. The
  fields the code tests against \<^verbatim>\<open>None\<close> are options; the title is a JSON value since the
  Best Buy JSON-LD path stores \<^verbatim>\<open>item_data.get('name')\<close> as it is. The platform is the
  constant \<^verbatim>\<open>platform_name\<close> of the adapter.
\<close>

record Result =
  r_platform :: string
  r_item :: pystr
  r_title :: json
  r_price :: "pyfloat option"
  r_seller_rating :: "pyfloat option"
  r_link :: "pystr option"

section \<open>BasePlatform helpers\<close>

text \<open>\<^verbatim>\<open>lambda x: x.isdigit() or x == '.'\<close>\<close>

definition price_char :: "pylib \<Rightarrow> nat \<Rightarrow> bool" where
  "price_char L x = (str_isdigit L x \<or> [x] = ustr ''.'')"

text \<open>
  \<^verbatim>\<open>_clean_price\<close>: a falsy argument gives \<open>None\<close>; otherwise \<^verbatim>\<open>str\<close>, \<^verbatim>\<open>strip\<close>, the
  filter, and \<^verbatim>\<open>float\<close> when something is left, with its ValueError turned into \<open>None\<close>.
\<close>

definition clean_price :: "pylib \<Rightarrow> json \<Rightarrow> pyfloat option" where
  "clean_price L price_str =
     (if \<not> truthy price_str then None
      else (let cleaned = filter (price_char L) (strip L (py_str L price_str))
            in if cleaned \<noteq> [] then float_of_str L cleaned else None))"

text \<open>
  \<^verbatim>\<open>_apply_filters\<close>: the argument is \<open>None\<close> for a value that is falsy or not a dict.
\<close>

definition apply_filters :: "Result option \<Rightarrow> ItemRequest \<Rightarrow> bool" where
  "apply_filters result item =
     (case result of
        None \<Rightarrow> False
      | Some r \<Rightarrow>
          (case r_price r of
             None \<Rightarrow> False
           | Some p \<Rightarrow> if float_gt p (max_price item) then False else True))"

text \<open>\<^verbatim>\<open>EbayPlatform._apply_ebay_filters\<close>\<close>

definition apply_ebay_filters :: "Result \<Rightarrow> ItemRequest \<Rightarrow> bool" where
  "apply_ebay_filters result item =
     (let min_rating = min_seller_rating item
      in if float_gt min_rating (Finite 0) then
           (case r_seller_rating result of
              None \<Rightarrow> False
            | Some current_rating \<Rightarrow> if float_lt current_rating min_rating then False else True)
         else True)"

section \<open>Fetching and parsing\<close>

text \<open>
  Of the logging only the records at level \<^verbatim>\<open>ERROR\<close> are kept, as a list returned next to
  the result: they are how an adapter and the orchestrator report a failed call. The
  DEBUG, INFO and WARNING diagnostics influence no result and are left out.
\<close>

datatype log_error =
    RequestFailed string
  | RequestUnexpected string
  | ErrorParsingHTML string
  | AmazonBlocked
  | WalmartBlocked int
  | BestbuyAccessDenied
  | WalmartScriptError exn
  | BestbuyScriptError exn
  | NoPlatformInstances
  | PlatformFailed string json exn
  | InputFileNotFound
  | InputNotAList
  | InputDecodeError
  | InputUnexpectedError

record response =
  resp_text :: pystr
  resp_url :: pystr
  status_code :: int

text \<open>What \<^verbatim>\<open>session.get\<close> did: the network is an input of the model.\<close>

datatype fetch = Received response | RequestException | OtherException

text \<open>
  \<^verbatim>\<open>_make_request\<close>: \<^verbatim>\<open>raise_for_status\<close> raises for a status from 400 to 599, every
  exception is logged and becomes \<open>None\<close>. The politeness delay is not modelled.
\<close>

definition make_request :: "string \<Rightarrow> fetch \<Rightarrow> log_error list \<times> response option" where
  "make_request platform_name got =
     (case got of
        Received response \<Rightarrow>
          if 400 \<le> status_code response \<and> status_code response < 600
          then ([RequestFailed platform_name], None)
          else ([], Some response)
      | RequestException \<Rightarrow> ([RequestFailed platform_name], None)
      | OtherException \<Rightarrow> ([RequestUnexpected platform_name], None))"

text \<open>
  \<^verbatim>\<open>_parse_html\<close>: \<open>bs4\<close> is what \<^verbatim>\<open>BeautifulSoup(html_content, 'html.parser')\<close> gives
  (\<open>None\<close> when it raises), already seen through the adapter's selectors.
\<close>

definition parse_html :: "string \<Rightarrow> pystr \<Rightarrow> 'soup option \<Rightarrow> log_error list \<times> 'soup option" where
  "parse_html platform_name html_content bs4 =
     (if html_content = [] then ([], None)
      else (case bs4 of
              None \<Rightarrow> ([ErrorParsingHTML platform_name], None)
            | Some soup \<Rightarrow> ([], Some soup)))"

text \<open>
  An element found by \<^verbatim>\<open>select_one\<close>: its \<^verbatim>\<open>get_text(strip=True)\<close> and its \<^verbatim>\<open>href\<close>
  attribute (\<open>None\<close> when \<^verbatim>\<open>has_attr('href')\<close> is false).
\<close>

record tag =
  get_text :: pystr
  href :: "pystr option"

text \<open>
  \<^verbatim>\<open>for x in xs: try: ... except Exception: continue\<close> around a body that appends at most
  one result: \<open>Inl\<close> is an exception raised by the body, \<open>Inr None\<close> a listing that was
  skipped or filtered out.
\<close>

fun for_listings :: "('a \<Rightarrow> exn + Result option) \<Rightarrow> 'a list \<Rightarrow> Result list \<Rightarrow> Result list" where
  "for_listings body [] results = results"
| "for_listings body (x # xs) results =
     (case body x of
        Inr (Some result) \<Rightarrow> for_listings body xs (results @ [result])
      | Inr None \<Rightarrow> for_listings body xs results
      | Inl e \<Rightarrow> for_listings body xs results)"

definition bindE :: "exn + 'a \<Rightarrow> ('a \<Rightarrow> exn + 'b) \<Rightarrow> exn + 'b" where
  "bindE m f = (case m of Inl e \<Rightarrow> Inl e | Inr v \<Rightarrow> f v)"

section \<open>EbayPlatform\<close>

record ebay_li =
  eb_title_element :: "tag option"
  eb_price_element :: "tag option"
  eb_link_element :: "tag option"
  eb_seller_info_element :: "tag option"

definition ebay_title :: "pylib \<Rightarrow> tag option \<Rightarrow> tag option \<Rightarrow> pystr" where
  "ebay_title L title_element link_element =
     (case title_element of
        None \<Rightarrow> ustr ''N/A''
      | Some te \<Rightarrow>
          (let title_text = get_text te;
               title_text = (if title_text = [] then
                               (case link_element of
                                  Some le \<Rightarrow> get_text le
                                | None \<Rightarrow> title_text)
                             else title_text)
           in strip L (remove_all (ustr ''New Listing'') title_text)))"

text \<open>\<^verbatim>\<open>link = link_element['href'] if link_element and link_element.has_attr('href') else None\<close>\<close>

definition ebay_link :: "tag option \<Rightarrow> pystr option" where
  "ebay_link link_element = (case link_element of None \<Rightarrow> None | Some le \<Rightarrow> href le)"

text \<open>
  The seller rating: an empty \<^verbatim>\<open>split()\<close> is the IndexError of \<^verbatim>\<open>[-1]\<close>, and a
  ValueError of \<^verbatim>\<open>float\<close> is caught the same way; both leave \<open>None\<close>.
\<close>

definition ebay_seller_rating :: "pylib \<Rightarrow> tag option \<Rightarrow> pyfloat option" where
  "ebay_seller_rating L seller_info_element =
     (case seller_info_element of
        None \<Rightarrow> None
      | Some el \<Rightarrow>
          (let seller_text = get_text el
           in if contains seller_text (ustr ''%'') then
                (case split_ws L [] (split_head (ustr ''%'') seller_text) of
                   [] \<Rightarrow> None
                 | w # ws \<Rightarrow>
                     (let rating_part = last (w # ws);
                          cleaned_rating_part = filter (price_char L) rating_part
                      in if cleaned_rating_part \<noteq> [] then float_of_str L cleaned_rating_part
                         else None))
              else None))"

definition ebay_listing :: "pylib \<Rightarrow> pystr \<Rightarrow> ItemRequest \<Rightarrow> ebay_li \<Rightarrow> Result option" where
  "ebay_listing L search_term item list_item =
     (let title_element = eb_title_element list_item;
          price_element = eb_price_element list_item;
          link_element = eb_link_element list_item;
          title = ebay_title L title_element link_element;
          price_str = (case price_element of Some pe \<Rightarrow> get_text pe | None \<Rightarrow> []);
          price = clean_price L (JStr (split_head (ustr '' to '') price_str));
          link = ebay_link link_element;
          seller_rating = ebay_seller_rating L (eb_seller_info_element list_item)
      in if title = ustr ''N/A'' \<or> price = None \<or> link = None then None
         else (let result = \<lparr>r_platform = ''eBay'', r_item = search_term, r_title = JStr title,
                              r_price = price, r_seller_rating = seller_rating, r_link = link\<rparr>
               in if apply_filters (Some result) item \<and> apply_ebay_filters result item
                  then Some result else None))"

text \<open>
  \<^verbatim>\<open>EbayPlatform.search\<close>. \<^verbatim>\<open>quote_plus\<close> raises TypeError on a name that is not a
  string; the URL it builds is only used for the request, whose outcome is \<open>got\<close>.
\<close>

definition EbayPlatform_search ::
  "pylib \<Rightarrow> fetch \<Rightarrow> ebay_li list option \<Rightarrow> ItemRequest \<Rightarrow> exn + (log_error list \<times> Result list)" where
  "EbayPlatform_search L got bs4 item =
     (case name item of
        JStr search_term \<Rightarrow>
          (case make_request ''eBay'' got of
             (log1, None) \<Rightarrow> Inr (log1, [])
           | (log1, Some response) \<Rightarrow>
               (case parse_html ''eBay'' (resp_text response) bs4 of
                  (log2, None) \<Rightarrow> Inr (log1 @ log2, [])
                | (log2, Some list_items) \<Rightarrow>
                    Inr (log1 @ log2,
                         for_listings (\<lambda>li. Inr (ebay_listing L search_term item li)) list_items [])))
      | _ \<Rightarrow> Inl TypeError)"

section \<open>AmazonPlatform\<close>

record amazon_li =
  am_sponsored_label :: "tag option"
  am_title_element :: "tag option"
  am_link_element :: "tag option"
  am_price_whole_el :: "tag option"
  am_price_fraction_el :: "tag option"
  am_price_container :: "tag option"

definition amazon_link :: "tag option \<Rightarrow> pystr option" where
  "amazon_link link_element =
     (case link_element of
        None \<Rightarrow> None
      | Some le \<Rightarrow>
          (case href le of
             None \<Rightarrow> None
           | Some h \<Rightarrow>
               if startswith h (ustr ''/'') then Some (ustr ''https://www.amazon.com'' @ h)
               else if startswith h (ustr ''http'') then Some h
               else None))"

definition amazon_price :: "pylib \<Rightarrow> amazon_li \<Rightarrow> pyfloat option" where
  "amazon_price L list_item =
     (case (am_price_whole_el list_item, am_price_fraction_el list_item) of
        (Some w, Some f) \<Rightarrow> clean_price L (JStr (get_text w @ get_text f))
      | _ \<Rightarrow>
          (case am_price_container list_item of
             Some pc \<Rightarrow> clean_price L (JStr (get_text pc))
           | None \<Rightarrow> None))"

definition amazon_listing :: "pylib \<Rightarrow> pystr \<Rightarrow> ItemRequest \<Rightarrow> amazon_li \<Rightarrow> Result option" where
  "amazon_listing L search_term item list_item =
     (case am_sponsored_label list_item of
        Some sponsored_label \<Rightarrow> None
      | None \<Rightarrow>
          (let title = (case am_title_element list_item of
                          Some te \<Rightarrow> get_text te | None \<Rightarrow> ustr ''N/A'');
               link = amazon_link (am_link_element list_item);
               price = amazon_price L list_item
           in if title = ustr ''N/A'' \<or> price = None \<or> link = None then None
              else (let result = \<lparr>r_platform = ''Amazon'', r_item = search_term,
                                   r_title = JStr title, r_price = price,
                                   r_seller_rating = None, r_link = link\<rparr>
                    in if apply_filters (Some result) item then Some result else None)))"

definition amazon_blocked :: "pylib \<Rightarrow> response \<Rightarrow> bool" where
  "amazon_blocked L response =
     (contains (str_lower L (resp_text response)) (ustr ''captcha'')
      \<or> contains (str_lower L (resp_text response)) (ustr ''robot check''))"

definition AmazonPlatform_search ::
  "pylib \<Rightarrow> fetch \<Rightarrow> amazon_li list option \<Rightarrow> ItemRequest \<Rightarrow> exn + (log_error list \<times> Result list)" where
  "AmazonPlatform_search L got bs4 item =
     (case name item of
        JStr search_term \<Rightarrow>
          (case make_request ''Amazon'' got of
             (log1, None) \<Rightarrow> Inr (log1, [])
           | (log1, Some response) \<Rightarrow>
               if amazon_blocked L response then Inr (log1 @ [AmazonBlocked], [])
               else
                 (case parse_html ''Amazon'' (resp_text response) bs4 of
                    (log2, None) \<Rightarrow> Inr (log1 @ log2, [])
                  | (log2, Some list_items) \<Rightarrow>
                      Inr (log1 @ log2,
                           for_listings (\<lambda>li. Inr (amazon_listing L search_term item li))
                             list_items [])))
      | _ \<Rightarrow> Inl TypeError)"

section \<open>WalmartPlatform\<close>

record walmart_li =
  wm_title_element :: "tag option"
  wm_price_element :: "tag option"
  wm_link_element :: "tag option"

text \<open>The page as the two selectors see it: the text of each JSON script, the containers.\<close>

record walmart_soup =
  wm_scripts :: "pystr list"
  wm_list_items :: "walmart_li list"

text \<open>\<^verbatim>\<open>x.strip()\<close> on a value that may not be a string.\<close>

fun py_strip :: "pylib \<Rightarrow> json \<Rightarrow> exn + pystr" where
  "py_strip L (JStr s) = Inr (strip L s)"
| "py_strip L _ = Inl AttributeError"

text \<open>
  \<^verbatim>\<open>link = f"https://www.walmart.com{link_path}" if link_path else None\<close>
\<close>

definition walmart_json_link :: "pylib \<Rightarrow> json \<Rightarrow> pystr option" where
  "walmart_json_link L link_path =
     (if truthy link_path then Some (ustr ''https://www.walmart.com'' @ py_str L link_path)
      else None)"

text \<open>The body of the inner \<^verbatim>\<open>try\<close> of the embedded-JSON strategy.\<close>

definition walmart_json_item :: "pylib \<Rightarrow> pystr \<Rightarrow> ItemRequest \<Rightarrow> json \<Rightarrow> exn + Result option" where
  "walmart_json_item L search_term item item_data =
     bindE (dict_get item_data (ustr ''title'') (JStr [])) (\<lambda>title_raw.
     bindE (py_strip L title_raw) (\<lambda>title.
     bindE (dict_get item_data (ustr ''primaryOffer'') (JObj [])) (\<lambda>price_info.
     bindE (dict_get price_info (ustr ''offerPrice'') JNull) (\<lambda>offer_price.
     bindE (if truthy offer_price then Inr offer_price
            else dict_get price_info (ustr ''minPrice'') JNull) (\<lambda>price_arg.
     bindE (dict_get item_data (ustr ''canonicalUrl'') JNull) (\<lambda>link_path.
       (let price = clean_price L price_arg;
            link = walmart_json_link L link_path
        in if title = [] \<or> price = None \<or> (case link of None \<Rightarrow> True | Some l \<Rightarrow> l = [])
           then Inr None
           else (let result = \<lparr>r_platform = ''Walmart'', r_item = search_term,
                                r_title = JStr title, r_price = price,
                                r_seller_rating = None, r_link = link\<rparr>
                 in if apply_filters (Some result) item then Inr (Some result)
                    else Inr None))))))))"

text \<open>
  The body of the outer \<^verbatim>\<open>try\<close> for one script: \<open>Inr (Some rs)\<close> when the script held
  items (\<open>rs\<close> are the results it appended; \<^verbatim>\<open>found_json = True\<close> and \<^verbatim>\<open>break\<close> follow),
  \<open>Inr None\<close> when it is passed over.
\<close>

definition walmart_script ::
  "pylib \<Rightarrow> pystr \<Rightarrow> ItemRequest \<Rightarrow> pystr \<Rightarrow> exn + Result list option" where
  "walmart_script L search_term item script_text =
     (if contains script_text (ustr ''searchContent'') then
        (case json_loads L script_text of
           None \<Rightarrow> Inl JSONDecodeError
         | Some data \<Rightarrow>
             bindE (dict_get data (ustr ''searchContent'') (JObj [])) (\<lambda>search_content.
             bindE (dict_get search_content (ustr ''preso'') (JObj [])) (\<lambda>preso.
             bindE (dict_get preso (ustr ''items'') (JArr [])) (\<lambda>items_data.
               if truthy items_data then
                 bindE (py_iter items_data) (\<lambda>elems.
                   Inr (Some (for_listings (walmart_json_item L search_term item) elems [])))
               else Inr None))))
      else Inr None)"

text \<open>
  The loop over the scripts: a JSONDecodeError goes to the next script silently, any
  other exception is logged and the loop goes on; the first script with items ends it.
  The result is the log, the results and \<^verbatim>\<open>found_json\<close>.
\<close>

fun walmart_scripts ::
  "pylib \<Rightarrow> pystr \<Rightarrow> ItemRequest \<Rightarrow> pystr list \<Rightarrow> Result list
     \<Rightarrow> log_error list \<times> Result list \<times> bool" where
  "walmart_scripts L search_term item [] results = ([], results, False)"
| "walmart_scripts L search_term item (script # rest) results =
     (case walmart_script L search_term item script of
        Inr (Some found) \<Rightarrow> ([], results @ found, True)
      | Inr None \<Rightarrow> walmart_scripts L search_term item rest results
      | Inl e \<Rightarrow>
          (case walmart_scripts L search_term item rest results of
             (lg, rs, found_json) \<Rightarrow>
               ((if e = JSONDecodeError then [] else [WalmartScriptError e]) @ lg, rs, found_json)))"

definition walmart_link :: "tag option \<Rightarrow> pystr option" where
  "walmart_link link_element =
     (case link_element of
        None \<Rightarrow> None
      | Some le \<Rightarrow>
          (case href le of
             None \<Rightarrow> None
           | Some h \<Rightarrow>
               Some (if startswith h (ustr ''/'') then ustr ''https://www.walmart.com'' @ h
                     else h)))"

definition walmart_listing :: "pylib \<Rightarrow> pystr \<Rightarrow> ItemRequest \<Rightarrow> walmart_li \<Rightarrow> Result option" where
  "walmart_listing L search_term item list_item =
     (let title = (case wm_title_element list_item of
                     Some te \<Rightarrow> get_text te | None \<Rightarrow> ustr ''N/A'');
          link = walmart_link (wm_link_element list_item);
          price = (case wm_price_element list_item of
                     Some pe \<Rightarrow> clean_price L (JStr (get_text pe))
                   | None \<Rightarrow> None)
      in if title = ustr ''N/A'' \<or> price = None \<or> link = None then None
         else (let result = \<lparr>r_platform = ''Walmart'', r_item = search_term,
                              r_title = JStr title, r_price = price,
                              r_seller_rating = None, r_link = link\<rparr>
               in if apply_filters (Some result) item then Some result else None))"

definition walmart_blocked :: "pylib \<Rightarrow> response \<Rightarrow> bool" where
  "walmart_blocked L response =
     (contains (str_lower L (resp_url response)) (ustr ''error'') \<or> status_code response \<noteq> 200)"

definition WalmartPlatform_search ::
  "pylib \<Rightarrow> fetch \<Rightarrow> walmart_soup option \<Rightarrow> ItemRequest
     \<Rightarrow> exn + (log_error list \<times> Result list)" where
  "WalmartPlatform_search L got bs4 item =
     (case name item of
        JStr search_term \<Rightarrow>
          (case make_request ''Walmart'' got of
             (log1, None) \<Rightarrow> Inr (log1, [])
           | (log1, Some response) \<Rightarrow>
               if walmart_blocked L response
               then Inr (log1 @ [WalmartBlocked (status_code response)], [])
               else
                 (case parse_html ''Walmart'' (resp_text response) bs4 of
                    (log2, None) \<Rightarrow> Inr (log1 @ log2, [])
                  | (log2, Some soup) \<Rightarrow>
                      (case walmart_scripts L search_term item (wm_scripts soup) [] of
                         (log3, results, found_json) \<Rightarrow>
                           if \<not> found_json then
                             Inr (log1 @ log2 @ log3,
                                  for_listings (\<lambda>li. Inr (walmart_listing L search_term item li))
                                    (wm_list_items soup) results)
                           else Inr (log1 @ log2 @ log3, results))))
      | _ \<Rightarrow> Inl TypeError)"

section \<open>BestbuyPlatform\<close>

text \<open>
  \<^verbatim>\<open>TITLE_SELECTOR_BB\<close> and \<^verbatim>\<open>LINK_SELECTOR_BB\<close> are the same selector, so
  \<^verbatim>\<open>title_element\<close> and \<^verbatim>\<open>link_element\<close> are one element.
\<close>

record bestbuy_li =
  bb_title_element :: "tag option"
  bb_price_element :: "tag option"

record bestbuy_soup =
  bb_scripts :: "pystr list"
  bb_list_items :: "bestbuy_li list"

text \<open>
  The link of the JSON-LD strategy, for a truthy \<^verbatim>\<open>link\<close>: \<^verbatim>\<open>startswith\<close> exists on a
  string only.
\<close>

definition bestbuy_json_link :: "json \<Rightarrow> exn + pystr" where
  "bestbuy_json_link link =
     (case link of
        JStr l \<Rightarrow>
          Inr (if \<not> startswith l (ustr ''http'') then
                 (if startswith l (ustr ''/'') then ustr ''https://www.bestbuy.com'' @ l
                  else ustr ''https://www.bestbuy.com/'' @ l)
               else l)
      | _ \<Rightarrow> Inl AttributeError)"

text \<open>The body of the inner \<^verbatim>\<open>try\<close> of the JSON-LD strategy.\<close>

definition bestbuy_json_item :: "pylib \<Rightarrow> pystr \<Rightarrow> ItemRequest \<Rightarrow> json \<Rightarrow> exn + Result option" where
  "bestbuy_json_item L search_term item item_data =
     bindE (dict_get item_data (ustr ''name'') JNull) (\<lambda>title.
     bindE (dict_get item_data (ustr ''offers'') (JObj [])) (\<lambda>offers_raw.
       (let offers = (case offers_raw of
                        JArr os \<Rightarrow> (case os of [] \<Rightarrow> JObj [] | offer # others \<Rightarrow> offer)
                      | _ \<Rightarrow> offers_raw)
        in bindE (dict_get offers (ustr ''price'') JNull) (\<lambda>price_arg.
           bindE (dict_get item_data (ustr ''url'') JNull) (\<lambda>link.
             (let price = clean_price L price_arg
              in if \<not> truthy title \<or> price = None \<or> \<not> truthy link then Inr None
                 else bindE (bestbuy_json_link link) (\<lambda>link.
                   (let result = \<lparr>r_platform = ''BestBuy'', r_item = search_term,
                                   r_title = title, r_price = price,
                                   r_seller_rating = None, r_link = Some link\<rparr>
                    in if apply_filters (Some result) item then Inr (Some result)
                       else Inr None))))))))"

text \<open>
  The loop over the entries of one JSON-LD block. The two \<^verbatim>\<open>get\<close> calls before the inner
  \<^verbatim>\<open>try\<close> are not protected by it: their exception leaves the loop, with the results
  appended so far.
\<close>

fun bestbuy_entries ::
  "pylib \<Rightarrow> pystr \<Rightarrow> ItemRequest \<Rightarrow> json list \<Rightarrow> Result list \<Rightarrow> Result list \<times> exn option" where
  "bestbuy_entries L search_term item [] results = (results, None)"
| "bestbuy_entries L search_term item (item_entry # rest) results =
     (case dict_get item_entry (ustr ''item'') item_entry of
        Inl e \<Rightarrow> (results, Some e)
      | Inr item_data \<Rightarrow>
          (case dict_get item_data (ustr ''@type'') JNull of
             Inl e \<Rightarrow> (results, Some e)
           | Inr ty \<Rightarrow>
               if ty \<noteq> JStr (ustr ''Product'') then bestbuy_entries L search_term item rest results
               else
                 (case bestbuy_json_item L search_term item item_data of
                    Inr (Some result) \<Rightarrow>
                      bestbuy_entries L search_term item rest (results @ [result])
                  | Inr None \<Rightarrow> bestbuy_entries L search_term item rest results
                  | Inl e \<Rightarrow> bestbuy_entries L search_term item rest results)))"

text \<open>\<^verbatim>\<open>items_data\<close> of a parsed block.\<close>

definition bestbuy_items_data :: "json \<Rightarrow> json" where
  "bestbuy_items_data data =
     (case data of
        JArr xs \<Rightarrow> data
      | JObj kvs \<Rightarrow>
          if map_of kvs (ustr ''@type'') = Some (JStr (ustr ''ItemList''))
          then (case map_of kvs (ustr ''itemListElement'') of Some v \<Rightarrow> v | None \<Rightarrow> JArr [])
          else JArr []
      | _ \<Rightarrow> JArr [])"

text \<open>
  The body of the outer \<^verbatim>\<open>try\<close> for one script: the results, whether \<^verbatim>\<open>found_json\<close>
  was set, and the exception that ended the body, if any.
\<close>

definition bestbuy_script ::
  "pylib \<Rightarrow> pystr \<Rightarrow> ItemRequest \<Rightarrow> pystr \<Rightarrow> Result list \<Rightarrow> Result list \<times> bool \<times> exn option" where
  "bestbuy_script L search_term item script_text results =
     (case json_loads L script_text of
        None \<Rightarrow> (results, False, Some JSONDecodeError)
      | Some data \<Rightarrow>
          (let items_data = bestbuy_items_data data
           in if truthy items_data then
                (case py_iter items_data of
                   Inl e \<Rightarrow> (results, False, Some e)
                 | Inr entries \<Rightarrow>
                     (case bestbuy_entries L search_term item entries results of
                        (results', Some e) \<Rightarrow> (results', False, Some e)
                      | (results', None) \<Rightarrow> (results', True, None)))
              else (results, False, None)))"

text \<open>The loop over the scripts; there is no \<^verbatim>\<open>break\<close>.\<close>

fun bestbuy_scripts ::
  "pylib \<Rightarrow> pystr \<Rightarrow> ItemRequest \<Rightarrow> pystr list \<Rightarrow> Result list \<Rightarrow> bool
     \<Rightarrow> log_error list \<times> Result list \<times> bool" where
  "bestbuy_scripts L search_term item [] results found_json = ([], results, found_json)"
| "bestbuy_scripts L search_term item (script # rest) results found_json =
     (case bestbuy_script L search_term item script results of
        (results', found, err) \<Rightarrow>
          (case bestbuy_scripts L search_term item rest results' (found_json \<or> found) of
             (lg, rs, fj) \<Rightarrow>
               ((case err of
                   None \<Rightarrow> []
                 | Some e \<Rightarrow> if e = JSONDecodeError then [] else [BestbuyScriptError e]) @ lg,
                rs, fj)))"

definition bestbuy_link :: "tag option \<Rightarrow> pystr option" where
  "bestbuy_link link_element =
     (case link_element of
        None \<Rightarrow> None
      | Some le \<Rightarrow>
          (case href le of
             None \<Rightarrow> None
           | Some h \<Rightarrow>
               Some (if \<not> startswith h (ustr ''http'') then ustr ''https://www.bestbuy.com'' @ h
                     else h)))"

definition bestbuy_listing :: "pylib \<Rightarrow> pystr \<Rightarrow> ItemRequest \<Rightarrow> bestbuy_li \<Rightarrow> Result option" where
  "bestbuy_listing L search_term item list_item =
     (let title = (case bb_title_element list_item of
                     Some te \<Rightarrow> get_text te | None \<Rightarrow> ustr ''N/A'');
          link = bestbuy_link (bb_title_element list_item);
          price = (case bb_price_element list_item of
                     Some pe \<Rightarrow> clean_price L (JStr (get_text pe))
                   | None \<Rightarrow> None)
      in if title = ustr ''N/A'' \<or> price = None \<or> link = None then None
         else (let result = \<lparr>r_platform = ''BestBuy'', r_item = search_term,
                              r_title = JStr title, r_price = price,
                              r_seller_rating = None, r_link = link\<rparr>
               in if apply_filters (Some result) item then Some result else None))"

definition bestbuy_blocked :: "response \<Rightarrow> bool" where
  "bestbuy_blocked response = contains (resp_text response) (ustr ''Access Denied'')"

definition BestbuyPlatform_search ::
  "pylib \<Rightarrow> fetch \<Rightarrow> bestbuy_soup option \<Rightarrow> ItemRequest
     \<Rightarrow> exn + (log_error list \<times> Result list)" where
  "BestbuyPlatform_search L got bs4 item =
     (case name item of
        JStr search_term \<Rightarrow>
          (case make_request ''BestBuy'' got of
             (log1, None) \<Rightarrow> Inr (log1, [])
           | (log1, Some response) \<Rightarrow>
               if bestbuy_blocked response then Inr (log1 @ [BestbuyAccessDenied], [])
               else
                 (case parse_html ''BestBuy'' (resp_text response) bs4 of
                    (log2, None) \<Rightarrow> Inr (log1 @ log2, [])
                  | (log2, Some soup) \<Rightarrow>
                      (case bestbuy_scripts L search_term item (bb_scripts soup) [] False of
                         (log3, results, found_json) \<Rightarrow>
                           if \<not> found_json then
                             Inr (log1 @ log2 @ log3,
                                  for_listings (\<lambda>li. Inr (bestbuy_listing L search_term item li))
                                    (bb_list_items soup) results)
                           else Inr (log1 @ log2 @ log3, results))))
      | _ \<Rightarrow> Inl TypeError)"

section \<open>database_manager\<close>

text \<open>
  The \<^verbatim>\<open>listings\<close> table, rows in insertion order: the six columns that
  \<^verbatim>\<open>save_results\<close> binds and \<^verbatim>\<open>found_timestamp\<close>, which the engine sets when it inserts.
  The \<^verbatim>\<open>id\<close> the engine assigns is left out. The database file is taken to open and
  commit without error.
\<close>

record StoredListing =
  columns :: Result
  found_timestamp :: nat

text \<open>
  Binding a parameter: a list or a dict is not supported (an \<^verbatim>\<open>sqlite3.Error\<close>), an
  integer outside 64 bits raises OverflowError, which is not one.
\<close>

fun sqlite_bind :: "json \<Rightarrow> exn + unit" where
  "sqlite_bind (JArr xs) = Inl SqliteError"
| "sqlite_bind (JObj kvs) = Inl SqliteError"
| "sqlite_bind (JInt n) = (if - (2 ^ 63) \<le> n \<and> n < 2 ^ 63 then Inr () else Inl OverflowError)"
| "sqlite_bind _ = Inr ()"

text \<open>
  \<^verbatim>\<open>INSERT OR IGNORE\<close> under \<^verbatim>\<open>link TEXT UNIQUE\<close>: the row is skipped when a stored
  row has the same non-NULL link. The second component is \<^verbatim>\<open>cursor.rowcount\<close>.
\<close>

definition insert_or_ignore ::
  "nat \<Rightarrow> StoredListing list \<Rightarrow> Result \<Rightarrow> exn + (StoredListing list \<times> nat)" where
  "insert_or_ignore now table result =
     (case sqlite_bind (r_title result) of
        Inl e \<Rightarrow> Inl e
      | Inr u \<Rightarrow>
          if r_link result \<noteq> None \<and> (\<exists>row \<in> set table. r_link (columns row) = r_link result)
          then Inr (table, 0)
          else Inr (table @ [\<lparr>columns = result, found_timestamp = now\<rparr>], 1))"

text \<open>\<^verbatim>\<open>if result.get('link')\<close>\<close>

definition link_truthy :: "Result \<Rightarrow> bool" where
  "link_truthy result = (case r_link result of None \<Rightarrow> False | Some l \<Rightarrow> l \<noteq> [])"

text \<open>
  The loop of \<^verbatim>\<open>save_results\<close> with its two counters. An \<^verbatim>\<open>sqlite3.Error\<close> skips the
  row; any other exception leaves the function.
\<close>

fun save_loop ::
  "nat \<Rightarrow> Result list \<Rightarrow> StoredListing list \<Rightarrow> nat \<Rightarrow> nat
     \<Rightarrow> exn + (StoredListing list \<times> nat \<times> nat)" where
  "save_loop now [] table inserted_count ignored_count =
     Inr (table, inserted_count, ignored_count)"
| "save_loop now (result # rest) table inserted_count ignored_count =
     (case insert_or_ignore now table result of
        Inl e \<Rightarrow>
          if e = SqliteError then save_loop now rest table inserted_count ignored_count
          else Inl e
      | Inr (table', rowcount) \<Rightarrow>
          if rowcount > 0 then save_loop now rest table' (inserted_count + 1) ignored_count
          else if link_truthy result
               then save_loop now rest table' inserted_count (ignored_count + 1)
               else save_loop now rest table' inserted_count ignored_count)"

text \<open>
  \<^verbatim>\<open>save_results\<close> returns nothing; the model returns the table after the commit and the
  two counters as the final log line reports them (\<open>None\<close> for the early return, where the
  database is not opened). An exception that leaves the function leaves the table as it
  was, nothing being committed.
\<close>

definition save_results ::
  "nat \<Rightarrow> StoredListing list \<Rightarrow> Result list
     \<Rightarrow> exn + (StoredListing list \<times> (nat \<times> nat) option)" where
  "save_results now table results =
     (if results = [] then Inr (table, None)
      else (case save_loop now results table 0 0 of
              Inl e \<Rightarrow> Inl e
            | Inr (table', inserted_count, ignored_count) \<Rightarrow>
                Inr (table', Some (inserted_count, ignored_count))))"

section \<open>input_processor\<close>

text \<open>
  \<^verbatim>\<open>float(x)\<close>: an integer too large for a double raises OverflowError, one up to
  \<open>2\<^sup>5\<^sup>3\<close> is a double as it is, a larger one is rounded by the library; a float is
  returned as it is, \<^verbatim>\<open>nan\<close> and the infinities included; a string goes through the
  library; \<^verbatim>\<open>None\<close>, a list and a dict raise TypeError.
\<close>

definition float_overflows :: "int \<Rightarrow> bool" where
  "float_overflows n = (2 ^ 1024 - 2 ^ 970 \<le> \<bar>n\<bar>)"

fun py_float :: "pylib \<Rightarrow> json \<Rightarrow> exn + pyfloat" where
  "py_float L (JInt n) =
     (if float_overflows n then Inl OverflowError
      else Inr (Finite (if \<bar>n\<bar> \<le> 2 ^ 53 then real_of_int n else float_of_int L n)))"
| "py_float L (JFloat f) = Inr f"
| "py_float L (JBool b) = Inr (Finite (if b then 1 else 0))"
| "py_float L (JStr s) = (case float_of_str L s of None \<Rightarrow> Inl ValueError | Some f \<Rightarrow> Inr f)"
| "py_float L JNull = Inl TypeError"
| "py_float L (JArr xs) = Inl TypeError"
| "py_float L (JObj kvs) = Inl TypeError"

text \<open>
  The body of the validation loop: \<open>Inr None\<close> is a skipped item, \<open>Inl\<close> an exception
  that neither \<^verbatim>\<open>except (ValueError, TypeError)\<close> catches.
\<close>

definition validate_item :: "pylib \<Rightarrow> json \<Rightarrow> exn + ItemRequest option" where
  "validate_item L item =
     (case item of
        JObj kvs \<Rightarrow>
          (case (map_of kvs (ustr ''name''), map_of kvs (ustr ''max_price'')) of
             (Some item_name, Some raw_max_price) \<Rightarrow>
               (case py_float L raw_max_price of
                  Inl e \<Rightarrow> if e = ValueError \<or> e = TypeError then Inr None else Inl e
                | Inr coerced_max_price \<Rightarrow>
                    (case py_float L (case map_of kvs (ustr ''min_seller_rating'') of
                                        Some v \<Rightarrow> v | None \<Rightarrow> JInt 0) of
                       Inl e \<Rightarrow>
                         if e = ValueError \<or> e = TypeError
                         then Inr (Some \<lparr>name = item_name, max_price = coerced_max_price,
                                         min_seller_rating = Finite 0\<rparr>)
                         else Inl e
                     | Inr coerced_rating \<Rightarrow>
                         Inr (Some \<lparr>name = item_name, max_price = coerced_max_price,
                                    min_seller_rating = coerced_rating\<rparr>)))
           | _ \<Rightarrow> Inr None)
      | _ \<Rightarrow> Inr None)"

fun valid_items_loop :: "pylib \<Rightarrow> json list \<Rightarrow> ItemRequest list \<Rightarrow> exn + ItemRequest list" where
  "valid_items_loop L [] valid_items = Inr valid_items"
| "valid_items_loop L (item # rest) valid_items =
     (case validate_item L item of
        Inl e \<Rightarrow> Inl e
      | Inr None \<Rightarrow> valid_items_loop L rest valid_items
      | Inr (Some v) \<Rightarrow> valid_items_loop L rest (valid_items @ [v]))"

text \<open>
  The file at \<^verbatim>\<open>file_path\<close>: absent, present but raising when opened or read, or read.
\<close>

datatype input_file = NoSuchFile | ReadRaises | FileContent pystr

definition read_input_file :: "pylib \<Rightarrow> input_file \<Rightarrow> log_error list \<times> ItemRequest list" where
  "read_input_file L file =
     (case file of
        NoSuchFile \<Rightarrow> ([InputFileNotFound], [])
      | ReadRaises \<Rightarrow> ([InputUnexpectedError], [])
      | FileContent content \<Rightarrow>
          if strip L content = [] then ([], [])
          else
            (case json_loads L content of
               None \<Rightarrow> ([InputDecodeError], [])
             | Some data \<Rightarrow>
                 (case data of
                    JArr items \<Rightarrow>
                      (case valid_items_loop L items [] of
                         Inl e \<Rightarrow> ([InputUnexpectedError], [])
                       | Inr valid_items \<Rightarrow> ([], valid_items))
                  | _ \<Rightarrow> ([InputNotAList], []))))"

section \<open>main_shopper\<close>

text \<open>
  A loaded platform object, seen through its \<^verbatim>\<open>search\<close>: the four adapters above with
  their library, network and page arguments supplied, or anything else of that type.
\<close>

type_synonym adapter = "ItemRequest \<Rightarrow> exn + (log_error list \<times> Result list)"

text \<open>The inner loop of \<^verbatim>\<open>run_search_cycle\<close>, over \<^verbatim>\<open>platform_instances.items()\<close>.\<close>

fun platforms_loop ::
  "(string \<times> adapter) list \<Rightarrow> ItemRequest \<Rightarrow> Result list \<Rightarrow> log_error list \<times> Result list" where
  "platforms_loop [] item all_results = ([], all_results)"
| "platforms_loop ((platform_name, platform_obj) # rest) item all_results =
     (case platform_obj item of
        Inr (lg, platform_results) \<Rightarrow>
          (case platforms_loop rest item (all_results @ platform_results) of
             (lg', rs) \<Rightarrow> (lg @ lg', rs))
      | Inl e \<Rightarrow>
          (case platforms_loop rest item all_results of
             (lg', rs) \<Rightarrow> (PlatformFailed platform_name (name item) e # lg', rs)))"

text \<open>The outer loop, over \<^verbatim>\<open>items_to_search\<close>.\<close>

fun items_loop ::
  "(string \<times> adapter) list \<Rightarrow> ItemRequest list \<Rightarrow> Result list
     \<Rightarrow> log_error list \<times> Result list" where
  "items_loop platform_instances [] all_results = ([], all_results)"
| "items_loop platform_instances (item # rest) all_results =
     (case platforms_loop platform_instances item all_results of
        (lg, rs) \<Rightarrow>
          (case items_loop platform_instances rest rs of
             (lg', rs') \<Rightarrow> (lg @ lg', rs')))"

definition run_search_cycle ::
  "pylib \<Rightarrow> (string \<times> adapter) list \<Rightarrow> input_file \<Rightarrow> nat \<Rightarrow> StoredListing list
     \<Rightarrow> exn + (log_error list \<times> StoredListing list)" where
  "run_search_cycle L platform_instances input_file now table =
     (if platform_instances = [] then Inr ([NoPlatformInstances], table)
      else
        (case read_input_file L input_file of
           (log1, items_to_search) \<Rightarrow>
             if items_to_search = [] then Inr (log1, table)
             else
               (case items_loop platform_instances items_to_search [] of
                  (log2, all_results) \<Rightarrow>
                    (case save_results now table all_results of
                       Inl e \<Rightarrow> Inl e
                     | Inr (table', counts) \<Rightarrow> Inr (log1 @ log2, table')))))"

section \<open>Concrete inputs\<close>

text \<open>
  A library for the examples. Its digits, its whitespace and its lower-casing are the
  ASCII ones. Its \<^verbatim>\<open>float\<close> answers for a text of ASCII digits with at most one point
  whose digits read as a number below \<open>2\<^sup>4\<^sup>0\<close> and that spells a multiple of
  \<open>1 / 2\<^sup>1\<^sup>0\<close>: such a decimal is a double, and CPython returns it unrounded.
  \<^verbatim>\<open>json.loads\<close> is given with each input file. What no example asks is answered
  with nothing.
\<close>

definition ascii_isdigit :: "nat \<Rightarrow> bool" where
  "ascii_isdigit c = (c \<in> set (ustr ''0123456789''))"

definition ascii_isspace :: "nat \<Rightarrow> bool" where
  "ascii_isspace c = (c \<in> set [9, 10, 11, 12, 13, 28, 29, 30, 31, 32])"

definition ascii_lower :: "pystr \<Rightarrow> pystr" where
  "ascii_lower s = map (\<lambda>c. if 65 \<le> c \<and> c \<le> 90 then c + 32 else c) s"

definition digit_val :: "nat \<Rightarrow> nat" where
  "digit_val c = c - 48"

definition nat_of_digits :: "pystr \<Rightarrow> nat" where
  "nat_of_digits ds = foldl (\<lambda>a c. 10 * a + digit_val c) 0 ds"

text \<open>The text \<open>I.F\<close> spells \<open>IF / 10 ^ |F|\<close>.\<close>

definition decimal_float :: "pystr \<Rightarrow> pyfloat option" where
  "decimal_float s =
     (let ip = takeWhile (\<lambda>c. c \<noteq> 46) s;
          fp = drop 1 (dropWhile (\<lambda>c. c \<noteq> 46) s);
          n = nat_of_digits (ip @ fp)
      in if filter (\<lambda>c. \<not> (ascii_isdigit c \<or> c = 46)) s = []
            \<and> filter ascii_isdigit s \<noteq> []
            \<and> length (filter (\<lambda>c. c = 46) s) \<le> 1
            \<and> n < 2 ^ 40 \<and> (n * 2 ^ 10) mod 10 ^ length fp = 0
         then Some (Finite (real n / 10 ^ length fp))
         else None)"

definition no_json :: "pystr \<Rightarrow> json option" where
  "no_json s = None"

definition no_str :: "json \<Rightarrow> pystr" where
  "no_str v = []"

definition no_round :: "int \<Rightarrow> real" where
  "no_round n = 0"

definition lib_plain :: pylib where
  "lib_plain =
     \<lparr>json_loads = no_json, str_of = no_str, float_of_str = decimal_float,
      float_of_int = no_round, str_isdigit = ascii_isdigit, str_isspace = ascii_isspace,
      str_lower = ascii_lower\<rparr>"

text \<open>The item request of the spec's scenario A and an eBay result for it.\<close>

definition rtx_item :: ItemRequest where
  "rtx_item =
     \<lparr>name = JStr (ustr ''RTX 3080''), max_price = Finite 500, min_seller_rating = Finite 95\<rparr>"

definition rtx_result :: "pyfloat \<Rightarrow> pyfloat option \<Rightarrow> Result" where
  "rtx_result p rating =
     \<lparr>r_platform = ''eBay'', r_item = ustr ''RTX 3080'', r_title = JStr (ustr ''RTX 3080 card''),
      r_price = Some p, r_seller_rating = rating,
      r_link = Some (ustr ''https://www.ebay.com/itm/123'')\<rparr>"

text \<open>Elements, listings and responses for the adapters.\<close>

definition tag_text :: "pystr \<Rightarrow> tag" where
  "tag_text t = \<lparr>get_text = t, href = None\<rparr>"

definition tag_link :: "pystr \<Rightarrow> pystr \<Rightarrow> tag" where
  "tag_link t h = \<lparr>get_text = t, href = Some h\<rparr>"

definition page :: "pystr \<Rightarrow> response" where
  "page body = \<lparr>resp_text = body, resp_url = ustr ''https://shop.example/search?q=RTX+3080'',
                 status_code = 200\<rparr>"

definition amazon_li_449 :: amazon_li where
  "amazon_li_449 =
     \<lparr>am_sponsored_label = None,
      am_title_element = Some (tag_text (ustr ''RTX 3080 Gaming'')),
      am_link_element = Some (tag_link (ustr ''RTX 3080 Gaming'') (ustr ''/dp/B08HR6ZBYJ'')),
      am_price_whole_el = Some (tag_text (ustr ''449.'')),
      am_price_fraction_el = Some (tag_text (ustr ''50'')),
      am_price_container = None\<rparr>"

definition walmart_li_449 :: walmart_li where
  "walmart_li_449 =
     \<lparr>wm_title_element = Some (tag_text (ustr ''RTX 3080 Gaming'')),
      wm_price_element = Some (tag_text (ustr ''$449.50'')),
      wm_link_element = Some (tag_link [] (ustr ''/ip/12345''))\<rparr>"

definition bestbuy_li_449 :: bestbuy_li where
  "bestbuy_li_449 =
     \<lparr>bb_title_element = Some (tag_link (ustr ''RTX 3080 Gaming'') (ustr ''/site/rtx-3080/6429440.p'')),
      bb_price_element = Some (tag_text (ustr ''$449.50''))\<rparr>"

definition walmart_error_page :: response where
  "walmart_error_page =
     \<lparr>resp_text = ustr ''<html>Robot or human?</html>'',
      resp_url = ustr ''https://www.walmart.com/blocked?url=Error'', status_code = 200\<rparr>"



definition ebay_li_450 :: ebay_li where
  "ebay_li_450 =
     \<lparr>eb_title_element = Some (tag_text (ustr ''New ListingRTX 3080 card'')),
      eb_price_element = Some (tag_text (ustr ''$450.00'')),
      eb_link_element = Some (tag_link [] (ustr ''https://www.ebay.com/itm/123'')),
      eb_seller_info_element = Some (tag_text (ustr ''gpu_seller (1,234) 97.5%''))\<rparr>"

definition ebay_li_no_price :: ebay_li where
  "ebay_li_no_price =
     \<lparr>eb_title_element = Some (tag_text (ustr ''RTX 3080 box only'')),
      eb_price_element = None,
      eb_link_element = Some (tag_link [] (ustr ''https://www.ebay.com/itm/124'')),
      eb_seller_info_element = Some (tag_text (ustr ''gpu_seller (1,234) 97.5%''))\<rparr>"


definition ebay_li_range :: ebay_li where
  "ebay_li_range =
     \<lparr>eb_title_element = Some (tag_text (ustr ''RTX 3080 card'')),
      eb_price_element = Some (tag_text (ustr ''$450.00 to $500.00'')),
      eb_link_element = Some (tag_link [] (ustr ''https://www.ebay.com/itm/125'')),
      eb_seller_info_element = Some (tag_text (ustr ''gpu_seller (1,234) 97.5%''))\<rparr>"

text \<open>An input file with the item of scenario A, and three platforms, one of them failing.\<close>

definition rtx_input_json :: json where
  "rtx_input_json =
     JArr [JObj [(ustr ''name'', JStr (ustr ''RTX 3080'')), (ustr ''max_price'', JInt 500),
                 (ustr ''min_seller_rating'', JInt 95)]]"

definition rtx_input_text :: pystr where
  \<open>rtx_input_text = ustr ''[{"name": "RTX 3080", "max_price": 500, "min_seller_rating": 95}]''\<close>

definition loads_rtx :: "pystr \<Rightarrow> json option" where
  "loads_rtx s = (if s = rtx_input_text then Some rtx_input_json else None)"

definition lib_rtx :: pylib where
  "lib_rtx = lib_plain\<lparr>json_loads := loads_rtx\<rparr>"

definition broken_adapter :: adapter where
  "broken_adapter item = Inl AttributeError"

definition ebay_adapter :: adapter where
  "ebay_adapter =
     EbayPlatform_search lib_plain (Received (page (ustr ''<html></html>'')))
       (Some [ebay_li_450, ebay_li_no_price])"

definition amazon_adapter :: adapter where
  "amazon_adapter =
     AmazonPlatform_search lib_plain (Received (page (ustr ''<html></html>''))) (Some [amazon_li_449])"

definition three_platforms :: "(string \<times> adapter) list" where
  "three_platforms =
     [(''ebay'', ebay_adapter), (''walmart'', broken_adapter), (''amazon'', amazon_adapter)]"

definition ebay_result_450 :: Result where
  "ebay_result_450 =
     \<lparr>r_platform = ''eBay'', r_item = ustr ''RTX 3080'', r_title = JStr (ustr ''RTX 3080 card''),
      r_price = Some (Finite 450), r_seller_rating = Some (Finite (975 / 10)),
      r_link = Some (ustr ''https://www.ebay.com/itm/123'')\<rparr>"

definition amazon_result_449 :: Result where
  "amazon_result_449 =
     \<lparr>r_platform = ''Amazon'', r_item = ustr ''RTX 3080'', r_title = JStr (ustr ''RTX 3080 Gaming''),
      r_price = Some (Finite (899 / 2)), r_seller_rating = None,
      r_link = Some (ustr ''https://www.amazon.com/dp/B08HR6ZBYJ'')\<rparr>"











text \<open>
  A Best Buy JSON-LD block that is a list of one product, and the same list with a
  number in front of it.
\<close>

definition product_json :: json where
  "product_json =
     JObj [(ustr ''@type'', JStr (ustr ''Product'')), (ustr ''name'', JStr (ustr ''RTX 3080 Gaming'')),
           (ustr ''offers'', JObj [(ustr ''price'', JStr (ustr ''449.50''))]),
           (ustr ''url'', JStr (ustr ''/site/rtx-3080/6429440.p''))]"

definition ld_product_text :: pystr where
  \<open>ld_product_text = ustr ''[{"@type": "Product", "name": "RTX 3080 Gaming", "offers": {"price": "449.50"}, "url": "/site/rtx-3080/6429440.p"}]''\<close>

definition ld_number_first_text :: pystr where
  \<open>ld_number_first_text = ustr ''[5, {"@type": "Product", "name": "RTX 3080 Gaming", "offers": {"price": "449.50"}, "url": "/site/rtx-3080/6429440.p"}]''\<close>

definition loads_ld :: "pystr \<Rightarrow> json option" where
  "loads_ld s =
     (if s = ld_number_first_text then Some (JArr [JInt 5, product_json])
      else if s = ld_product_text then Some (JArr [product_json])
      else None)"

definition lib_ld :: pylib where
  "lib_ld = lib_plain\<lparr>json_loads := loads_ld\<rparr>"

definition bestbuy_result_449 :: Result where
  "bestbuy_result_449 =
     \<lparr>r_platform = ''BestBuy'', r_item = ustr ''RTX 3080'', r_title = JStr (ustr ''RTX 3080 Gaming''),
      r_price = Some (Finite (899 / 2)), r_seller_rating = None,
      r_link = Some (ustr ''https://www.bestbuy.com/site/rtx-3080/6429440.p'')\<rparr>"

section \<open>Properties\<close>

subsection \<open>Unfolding the definitions on concrete inputs\<close>

lemmas eval_lib_defs =
  lib_plain_def ascii_isdigit_def ascii_isspace_def ascii_lower_def decimal_float_def
  nat_of_digits_def digit_val_def ustr_def Let_def

lemmas eval_defs =
  EbayPlatform_search_def make_request_def parse_html_def page_def ebay_listing_def
  ebay_title_def ebay_link_def ebay_seller_rating_def tag_text_def tag_link_def
  clean_price_def py_str_def strip_def price_char_def startswith_def
  apply_filters_def apply_ebay_filters_def float_gt_def Let_def eval_lib_defs

lemmas eval_bestbuy_defs =
  BestbuyPlatform_search_def bestbuy_blocked_def bestbuy_listing_def bestbuy_link_def
  make_request_def parse_html_def page_def tag_text_def tag_link_def
  clean_price_def py_str_def strip_def price_char_def startswith_def
  apply_filters_def float_gt_def Let_def eval_lib_defs

lemmas eval_cycle_defs =
  run_search_cycle_def read_input_file_def validate_item_def float_overflows_def
  save_results_def insert_or_ignore_def link_truthy_def
  three_platforms_def ebay_adapter_def amazon_adapter_def broken_adapter_def
  lib_rtx_def loads_rtx_def rtx_input_json_def
  AmazonPlatform_search_def amazon_blocked_def amazon_listing_def amazon_link_def
  amazon_price_def
  ebay_li_450_def ebay_li_no_price_def amazon_li_449_def
  ebay_result_450_def amazon_result_449_def

lemmas eval_ld_defs =
  bestbuy_scripts.simps bestbuy_script_def bestbuy_items_data_def bestbuy_entries.simps
  bestbuy_json_item_def bestbuy_json_link_def bindE_def lib_ld_def loads_ld_def
  product_json_def bestbuy_result_449_def ld_product_text_def ld_number_first_text_def

text \<open>Literals are equal as strings when they are equal as written.\<close>

lemma ustr_eq_iff [simp]: "ustr a = ustr b \<longleftrightarrow> a = b"
  by (simp add: ustr_def inj_map_eq_map inj_def)

lemma ustr_empty_iff [simp]: "ustr a = [] \<longleftrightarrow> a = []" "[] = ustr a \<longleftrightarrow> a = []"
  by (auto simp: ustr_def)

subsection \<open>The filter predicate\<close>

lemma float_lt_irrefl: "\<not> float_lt a a"
  by (cases a) simp_all

text \<open>
  Claim C2. The price rule rejects a result whose price is absent or strictly greater
  than \<open>max_price\<close> and accepts at equality; on eBay, where the rating rule is conjoined,
  a result is rejected whenever \<open>min_seller_rating\<close> is positive and the seller rating is
  absent or below it. Both predicates are functions of their two arguments alone. The
  comparisons are those of Python floats.
\<close>

theorem passes_price_and_rating:
  "((r_price r = None \<or> (\<exists>p. r_price r = Some p \<and> float_gt p (max_price item)))
       \<longrightarrow> \<not> apply_filters (Some r) item)
   \<and> (r_price r = Some (max_price item) \<longrightarrow> apply_filters (Some r) item)
   \<and> (float_gt (min_seller_rating item) (Finite 0)
        \<and> (r_seller_rating r = None
            \<or> (\<exists>s. r_seller_rating r = Some s \<and> float_lt s (min_seller_rating item)))
       \<longrightarrow> \<not> (apply_filters (Some r) item \<and> apply_ebay_filters r item))"
  by (auto simp: apply_filters_def apply_ebay_filters_def Let_def float_gt_def float_lt_irrefl
      split: option.splits)

theorem passes_price_and_rating_witness:
  "\<not> apply_filters (Some (rtx_result (Finite 550) (Some (Finite 97)))) rtx_item
   \<and> apply_filters (Some (rtx_result (Finite 500) (Some (Finite 97)))) rtx_item
   \<and> \<not> (apply_filters (Some (rtx_result (Finite 480) (Some (Finite 90)))) rtx_item
          \<and> apply_ebay_filters (rtx_result (Finite 480) (Some (Finite 90))) rtx_item)
   \<and> \<not> (apply_filters (Some (rtx_result (Finite 480) None)) rtx_item
          \<and> apply_ebay_filters (rtx_result (Finite 480) None) rtx_item)"
  using passes_price_and_rating [of "rtx_result (Finite 550) (Some (Finite 97))" rtx_item]
        passes_price_and_rating [of "rtx_result (Finite 500) (Some (Finite 97))" rtx_item]
        passes_price_and_rating [of "rtx_result (Finite 480) (Some (Finite 90))" rtx_item]
        passes_price_and_rating [of "rtx_result (Finite 480) None" rtx_item]
  by (simp add: rtx_result_def rtx_item_def float_gt_def)

subsection \<open>Price cleaning\<close>

lemma filter_dropWhile_disjoint:
  "(\<And>x. Q x \<Longrightarrow> \<not> P x) \<Longrightarrow> filter P (dropWhile Q xs) = filter P xs"
  by (induction xs) auto

lemma filter_price_char_strip:
  assumes "\<And>c. str_isspace L c \<Longrightarrow> \<not> price_char L c"
  shows "filter (price_char L) (strip L s) = filter (price_char L) s"
proof -
  have "filter (price_char L) (strip L s)
          = rev (filter (price_char L) (dropWhile (str_isspace L) (rev (dropWhile (str_isspace L) s))))"
    by (simp add: strip_def rev_filter)
  also have "\<dots> = rev (filter (price_char L) (rev (dropWhile (str_isspace L) s)))"
    by (simp add: filter_dropWhile_disjoint assms)
  also have "\<dots> = filter (price_char L) (dropWhile (str_isspace L) s)"
    by (simp add: rev_filter)
  also have "\<dots> = filter (price_char L) s"
    by (simp add: filter_dropWhile_disjoint assms)
  finally show ?thesis .
qed

lemma clean_price_str:
  assumes "\<And>c. str_isspace L c \<Longrightarrow> \<not> price_char L c"
  shows "clean_price L (JStr s)
           = (if filter (price_char L) s = [] then None
              else float_of_str L (filter (price_char L) s))"
proof (cases "s = []")
  case True
  then show ?thesis by (simp add: clean_price_def)
next
  case False
  then show ?thesis
    by (simp add: clean_price_def py_str_def Let_def filter_price_char_strip [OF assms])
qed


text \<open>The example library meets the two facts about CPython that the next theorem asks for.\<close>

lemma lib_plain_space_not_price_char: "str_isspace lib_plain c \<Longrightarrow> \<not> price_char lib_plain c"
  by (auto simp: lib_plain_def ascii_isspace_def ascii_isdigit_def price_char_def ustr_def)

lemma lib_plain_points_only:
  "\<forall>c\<in>set t. [c] = ustr ''.'' \<Longrightarrow> float_of_str lib_plain t = None"
  by (auto simp: lib_plain_def decimal_float_def ascii_isdigit_def ustr_def Let_def
      filter_empty_conv)

text \<open>
  Claim C3, as stated, fails on a price of zero: the remainder \<open>0.00\<close> is no positive
  float, and the result is not absent.
\<close>

theorem clean_price_zero_counterexample:
  "clean_price lib_plain (JStr (ustr ''$0.00'')) = Some (Finite 0)"
  by (simp add: clean_price_def py_str_def strip_def price_char_def eval_lib_defs)

text \<open>
  Claim C3, amended. \<open>clean_price\<close> keeps the characters of the string that
  \<^verbatim>\<open>str.isdigit\<close> accepts and every decimal point, in their order. When nothing is left
  the result is absent; otherwise it is what \<^verbatim>\<open>float\<close> makes of the remainder, absent
  when \<^verbatim>\<open>float\<close> rejects it, and not necessarily positive. For a string without digits
  the result is absent. Two facts about CPython are used: no whitespace character is a
  digit or the point, and \<^verbatim>\<open>float\<close> rejects a text made of points only.
\<close>

theorem clean_price_reads_digits_and_points:
  assumes "\<And>c. str_isspace L c \<Longrightarrow> \<not> price_char L c"
    and "\<And>t. \<forall>c\<in>set t. [c] = ustr ''.'' \<Longrightarrow> float_of_str L t = None"
  shows "(filter (price_char L) s = [] \<longrightarrow> clean_price L (JStr s) = None)
       \<and> (filter (price_char L) s \<noteq> [] \<longrightarrow>
            clean_price L (JStr s) = float_of_str L (filter (price_char L) s))
       \<and> ((\<forall>c\<in>set s. \<not> str_isdigit L c) \<longrightarrow> clean_price L (JStr s) = None)"
proof -
  note c = clean_price_str [OF assms(1), of s]
  have "clean_price L (JStr s) = None" if "\<forall>c\<in>set s. \<not> str_isdigit L c"
  proof -
    from that have "\<forall>c\<in>set (filter (price_char L) s). [c] = ustr ''.''"
      by (auto simp: price_char_def)
    from assms(2) [OF this] show ?thesis by (simp add: c)
  qed
  with c show ?thesis by simp
qed

theorem clean_price_reads_digits_and_points_witness:
  "clean_price lib_plain (JStr (ustr ''$1,234.50'')) = Some (Finite (2469 / 2))
   \<and> clean_price lib_plain (JStr (ustr ''1.2.3'')) = None
   \<and> clean_price lib_plain (JStr (ustr ''N/A'')) = None"
proof -
  have t: "(filter (price_char lib_plain) s = [] \<longrightarrow> clean_price lib_plain (JStr s) = None)
       \<and> (filter (price_char lib_plain) s \<noteq> [] \<longrightarrow>
            clean_price lib_plain (JStr s) = float_of_str lib_plain (filter (price_char lib_plain) s))
       \<and> ((\<forall>c\<in>set s. \<not> str_isdigit lib_plain c) \<longrightarrow> clean_price lib_plain (JStr s) = None)"
    for s
    by (rule clean_price_reads_digits_and_points)
       (erule lib_plain_space_not_price_char, erule lib_plain_points_only)
  have a: "clean_price lib_plain (JStr (ustr ''$1,234.50'')) = Some (Finite (2469 / 2))"
    using t [of "ustr ''$1,234.50''", THEN conjunct2, THEN conjunct1]
    by (simp add: price_char_def eval_lib_defs)
  have b: "clean_price lib_plain (JStr (ustr ''1.2.3'')) = None"
    using t [of "ustr ''1.2.3''", THEN conjunct2, THEN conjunct1]
    by (simp add: price_char_def eval_lib_defs)
  have c: "clean_price lib_plain (JStr (ustr ''N/A'')) = None"
    using t [of "ustr ''N/A''", THEN conjunct2, THEN conjunct2]
    by (simp add: eval_lib_defs)
  from a b c show ?thesis by simp
qed

subsection \<open>Block pages\<close>

text \<open>
  Claim C6. When the fetched response matches the adapter's block signature (CAPTCHA or
  robot-check text for Amazon, the Access Denied text for Best Buy, an error URL or a
  status other than 200 for Walmart), \<open>search\<close> logs one error and returns the empty
  sequence, whatever the page holds: the parsed page does not occur in the result. The
  error is the block record of the adapter; for a status from 400 to 599 it is the
  failed request that \<open>make_request\<close> has logged before.
\<close>

theorem blocked_page_not_extracted:
  assumes "name item = JStr search_term"
  shows "(amazon_blocked L r \<longrightarrow>
            AmazonPlatform_search L (Received r) amazon_bs4 item
              = Inr ([if 400 \<le> status_code r \<and> status_code r < 600
                      then RequestFailed ''Amazon'' else AmazonBlocked], []))
       \<and> (bestbuy_blocked r \<longrightarrow>
            BestbuyPlatform_search L (Received r) bestbuy_bs4 item
              = Inr ([if 400 \<le> status_code r \<and> status_code r < 600
                      then RequestFailed ''BestBuy'' else BestbuyAccessDenied], []))
       \<and> (walmart_blocked L r \<longrightarrow>
            WalmartPlatform_search L (Received r) walmart_bs4 item
              = Inr ([if 400 \<le> status_code r \<and> status_code r < 600
                      then RequestFailed ''Walmart'' else WalmartBlocked (status_code r)], []))"
  using assms
  by (simp add: AmazonPlatform_search_def BestbuyPlatform_search_def WalmartPlatform_search_def
      make_request_def)

theorem blocked_page_not_extracted_witness:
  "AmazonPlatform_search lib_plain (Received (page (ustr ''Enter the characters: CAPTCHA'')))
     (Some [amazon_li_449]) rtx_item = Inr ([AmazonBlocked], [])
   \<and> BestbuyPlatform_search lib_plain (Received (page (ustr ''<h1>Access Denied</h1>'')))
       (Some \<lparr>bb_scripts = [], bb_list_items = [bestbuy_li_449]\<rparr>) rtx_item
       = Inr ([BestbuyAccessDenied], [])
   \<and> WalmartPlatform_search lib_plain (Received walmart_error_page)
       (Some \<lparr>wm_scripts = [], wm_list_items = [walmart_li_449]\<rparr>) rtx_item
       = Inr ([WalmartBlocked 200], [])"
proof -
  have n: "name rtx_item = JStr (ustr ''RTX 3080'')"
    by (simp add: rtx_item_def)
  have a: "amazon_blocked lib_plain (page (ustr ''Enter the characters: CAPTCHA''))"
    by (simp add: amazon_blocked_def page_def startswith_def eval_lib_defs)
  have b: "bestbuy_blocked (page (ustr ''<h1>Access Denied</h1>''))"
    by (simp add: bestbuy_blocked_def page_def startswith_def ustr_def)
  have w: "walmart_blocked lib_plain walmart_error_page"
    by (simp add: walmart_blocked_def walmart_error_page_def startswith_def eval_lib_defs)
  have s: "status_code (page body) = 200" "status_code walmart_error_page = 200" for body
    by (simp_all add: page_def walmart_error_page_def)
  show ?thesis
    using blocked_page_not_extracted [OF n, of lib_plain "page (ustr ''Enter the characters: CAPTCHA'')"] a
      blocked_page_not_extracted [OF n, of _ "page (ustr ''<h1>Access Denied</h1>'')"] b
      blocked_page_not_extracted [OF n, of lib_plain walmart_error_page] w s
    by simp
qed

subsection \<open>What one listing can emit\<close>



lemma apply_filters_Some:
  "apply_filters (Some r) item \<longleftrightarrow> (\<exists>p. r_price r = Some p \<and> \<not> float_gt p (max_price item))"
  by (auto simp: apply_filters_def split: option.splits)

lemma clean_price_falsy: "\<not> truthy v \<Longrightarrow> clean_price L v = None"
  by (simp add: clean_price_def)

lemma ebay_listing_Some:
  assumes "ebay_listing L st item li = Some r"
  shows "\<exists>te pe le h p.
           eb_title_element li = Some te \<and> eb_price_element li = Some pe
         \<and> eb_link_element li = Some le \<and> href le = Some h
         \<and> r_title r = JStr (ebay_title L (Some te) (Some le))
         \<and> ebay_title L (Some te) (Some le) \<noteq> ustr ''N/A''
         \<and> r_price r = clean_price L (JStr (split_head (ustr '' to '') (get_text pe)))
         \<and> r_price r = Some p \<and> (\<exists>v. clean_price L v = Some p)
         \<and> r_link r = Some h"
proof -
  from assms obtain pe where pe: "eb_price_element li = Some pe"
    by (cases "eb_price_element li")
      (auto simp: ebay_listing_def Let_def clean_price_falsy split: if_splits)
  from assms obtain te where te: "eb_title_element li = Some te"
    by (cases "eb_title_element li")
      (auto simp: ebay_listing_def Let_def ebay_title_def split: if_splits)
  from assms obtain le h where le: "eb_link_element li = Some le" "href le = Some h"
    by (cases "eb_link_element li")
      (auto simp: ebay_listing_def Let_def ebay_link_def split: if_splits)
  from assms show ?thesis
    unfolding ebay_listing_def Let_def pe te le
    by (auto simp: ebay_link_def le apply_filters_Some
        split: if_splits)
qed







subsection \<open>What the loops of an adapter keep\<close>

lemma for_listings_append:
  "for_listings body xs acc
     = acc @ List.map_filter (\<lambda>x. case body x of Inr (Some r) \<Rightarrow> Some r | _ \<Rightarrow> None) xs"
  by (induction xs arbitrary: acc)
     (auto simp: List.map_filter_simps split: sum.splits option.splits)









subsection \<open>Where the results of a search come from\<close>





subsection \<open>Every emitted result is complete\<close>




subsection \<open>Link resolution\<close>





subsection \<open>Price ranges on eBay\<close>

lemma startswith_longer:
  "length p \<le> length s \<Longrightarrow> startswith (s @ t) p = startswith s p"
  by (simp add: startswith_def)

lemma split_head_first:
  assumes "sep \<noteq> []" and "\<not> contains (A @ butlast sep) sep"
  shows "split_head sep (A @ sep @ B) = A"
  using assms(2)
proof (induction A)
  case Nil
  from assms(1) obtain c cs where "sep @ B = c # cs" by (cases sep) auto
  moreover have "startswith (sep @ B) sep" by (simp add: startswith_def)
  ultimately show ?case by simp
next
  case (Cons a A)
  from Cons.prems have n: "\<not> startswith (a # A @ butlast sep) sep"
    and r: "\<not> contains (A @ butlast sep) sep"
    by simp_all
  have "(butlast sep @ [last sep]) @ B = sep @ B"
    by (simp only: append_butlast_last_id [OF assms(1)])
  then have e: "butlast sep @ last sep # B = sep @ B"
    by (simp only: append_assoc append.simps)
  have "startswith ((a # A @ butlast sep) @ (last sep # B)) sep
          = startswith (a # A @ butlast sep) sep"
    by (rule startswith_longer) simp
  then have "startswith (a # A @ sep @ B) sep = startswith (a # A @ butlast sep) sep"
    by (simp only: append.simps append_assoc e)
  with n have "\<not> startswith (a # A @ sep @ B) sep" by simp
  with Cons.IH [OF r] show ?case by simp
qed

text \<open>
  Claim C10. When the price text of an eBay listing is \<open>A to B\<close>, the separator after
  \<open>A\<close> being the first one in the text, the price of the result the listing emits is
  \<open>A\<close> cleaned: it does not depend on \<open>B\<close>.
\<close>

theorem ebay_range_takes_lower_bound:
  assumes "eb_price_element li = Some pe"
    and "get_text pe = A @ ustr '' to '' @ B"
    and "\<not> contains (A @ ustr '' to'') (ustr '' to '')"
    and "ebay_listing L st item li = Some r"
  shows "r_price r = clean_price L (JStr A) \<and> r_price r \<noteq> None"
proof -
  from ebay_listing_Some [OF assms(4)] assms(1) obtain p where
    c: "r_price r = clean_price L (JStr (split_head (ustr '' to '') (get_text pe)))"
    and p: "r_price r = Some p"
    by auto
  have "butlast (ustr '' to '') = ustr '' to''" "ustr '' to '' \<noteq> []"
    by (simp_all add: ustr_def)
  then have "split_head (ustr '' to '') (A @ ustr '' to '' @ B) = A"
    using split_head_first [of "ustr '' to ''" A B] assms(3) by simp
  with c assms(2) have "r_price r = clean_price L (JStr A)" by simp
  with p show ?thesis by simp
qed

theorem ebay_range_takes_lower_bound_witness:
  "ebay_listing lib_plain (ustr ''RTX 3080'') rtx_item ebay_li_range
     = Some \<lparr>r_platform = ''eBay'', r_item = ustr ''RTX 3080'',
              r_title = JStr (ustr ''RTX 3080 card''),
              r_price = Some (Finite 450), r_seller_rating = Some (Finite (975 / 10)),
              r_link = Some (ustr ''https://www.ebay.com/itm/125'')\<rparr>
   \<and> clean_price lib_plain (JStr (ustr ''$450.00'')) = Some (Finite 450)"
proof -
  let ?r = "\<lparr>r_platform = ''eBay'', r_item = ustr ''RTX 3080'',
              r_title = JStr (ustr ''RTX 3080 card''),
              r_price = Some (Finite 450), r_seller_rating = Some (Finite (975 / 10)),
              r_link = Some (ustr ''https://www.ebay.com/itm/125'')\<rparr>"
  have s: "ebay_listing lib_plain (ustr ''RTX 3080'') rtx_item ebay_li_range = Some ?r"
    by (simp add: eval_defs rtx_item_def ebay_li_range_def)
  have e: "eb_price_element ebay_li_range = Some (tag_text (ustr ''$450.00 to $500.00''))"
    by (simp add: ebay_li_range_def)
  have t: "get_text (tag_text (ustr ''$450.00 to $500.00''))
             = ustr ''$450.00'' @ ustr '' to '' @ ustr ''$500.00''"
    by (simp add: tag_text_def ustr_def)
  have n: "\<not> contains (ustr ''$450.00'' @ ustr '' to'') (ustr '' to '')"
    by (simp add: startswith_def ustr_def)
  from ebay_range_takes_lower_bound [OF e t n s]
  have "clean_price lib_plain (JStr (ustr ''$450.00'')) = Some (Finite 450)" by simp
  with s show ?thesis by simp
qed

subsection \<open>The search cycle\<close>

lemma platforms_loop_results:
  "snd (platforms_loop ps item acc)
     = acc @ concat (map (\<lambda>p. case snd p item of Inr (lg, rs) \<Rightarrow> rs | Inl e \<Rightarrow> []) ps)"
proof (induction ps arbitrary: acc)
  case Nil
  then show ?case by simp
next
  case (Cons p ps)
  obtain n a where p: "p = (n, a)" by (cases p)
  show ?case
  proof (cases "a item")
    case (Inl e)
    obtain lg' rs' where r: "platforms_loop ps item acc = (lg', rs')"
      by (cases "platforms_loop ps item acc")
    with Cons.IH [of acc] have "rs' = acc @ concat (map (\<lambda>p. case snd p item of
                                  Inr (lg, rs) \<Rightarrow> rs | Inl e \<Rightarrow> []) ps)"
      by simp
    with p Inl r show ?thesis by simp
  next
    case (Inr res)
    obtain lg rs where res: "res = (lg, rs)" by (cases res)
    obtain lg' rs' where r: "platforms_loop ps item (acc @ rs) = (lg', rs')"
      by (cases "platforms_loop ps item (acc @ rs)")
    with Cons.IH [of "acc @ rs"] have "rs' = (acc @ rs) @ concat (map (\<lambda>p. case snd p item of
                                  Inr (lg, rs) \<Rightarrow> rs | Inl e \<Rightarrow> []) ps)"
      by simp
    with p Inr res r show ?thesis by simp
  qed
qed

lemma items_loop_results:
  "snd (items_loop ps items acc)
     = acc @ concat (map (\<lambda>item. concat (map (\<lambda>p. case snd p item of
                                                      Inr (lg, rs) \<Rightarrow> rs | Inl e \<Rightarrow> []) ps)) items)"
proof (induction items arbitrary: acc)
  case Nil
  then show ?case by simp
next
  case (Cons item items)
  obtain lg rs where a: "platforms_loop ps item acc = (lg, rs)"
    by (cases "platforms_loop ps item acc")
  with platforms_loop_results [of ps item acc]
  have rs: "rs = acc @ concat (map (\<lambda>p. case snd p item of Inr (lg, rs) \<Rightarrow> rs | Inl e \<Rightarrow> []) ps)"
    by simp
  obtain lg' rs' where b: "items_loop ps items rs = (lg', rs')"
    by (cases "items_loop ps items rs")
  with Cons.IH [of rs]
  have "rs' = rs @ concat (map (\<lambda>item. concat (map (\<lambda>p. case snd p item of
                               Inr (lg, rs) \<Rightarrow> rs | Inl e \<Rightarrow> []) ps)) items)"
    by simp
  with a b rs show ?case by simp
qed

lemma platforms_loop_logs_failure:
  "(n, a) \<in> set ps \<Longrightarrow> a item = Inl e \<Longrightarrow>
   PlatformFailed n (name item) e \<in> set (fst (platforms_loop ps item acc))"
proof (induction ps arbitrary: acc)
  case Nil
  then show ?case by simp
next
  case (Cons p ps)
  obtain n' a' where p: "p = (n', a')" by (cases p)
  show ?case
  proof (cases "p = (n, a)")
    case True
    obtain lg' rs' where r: "platforms_loop ps item acc = (lg', rs')"
      by (cases "platforms_loop ps item acc")
    with True Cons.prems(2) show ?thesis by simp
  next
    case False
    with Cons.prems have m: "(n, a) \<in> set ps" by simp
    show ?thesis
    proof (cases "a' item")
      case (Inl e')
      obtain lg' rs' where r: "platforms_loop ps item acc = (lg', rs')"
        by (cases "platforms_loop ps item acc")
      with Cons.IH [OF m Cons.prems(2), of acc] p Inl show ?thesis by simp
    next
      case (Inr res)
      obtain lg rs where res: "res = (lg, rs)" by (cases res)
      obtain lg' rs' where r: "platforms_loop ps item (acc @ rs) = (lg', rs')"
        by (cases "platforms_loop ps item (acc @ rs)")
      with Cons.IH [OF m Cons.prems(2), of "acc @ rs"] p Inr res show ?thesis by simp
    qed
  qed
qed

lemma items_loop_logs_failure:
  "(n, a) \<in> set ps \<Longrightarrow> item \<in> set items \<Longrightarrow> a item = Inl e \<Longrightarrow>
   PlatformFailed n (name item) e \<in> set (fst (items_loop ps items acc))"
proof (induction items arbitrary: acc)
  case Nil
  then show ?case by simp
next
  case (Cons i items)
  obtain lg rs where a: "platforms_loop ps i acc = (lg, rs)"
    by (cases "platforms_loop ps i acc")
  obtain lg' rs' where b: "items_loop ps items rs = (lg', rs')"
    by (cases "items_loop ps items rs")
  show ?case
  proof (cases "i = item")
    case True
    from platforms_loop_logs_failure [OF Cons.prems(1,3), of acc] a True
    have "PlatformFailed n (name item) e \<in> set lg" by simp
    with a b show ?thesis by simp
  next
    case False
    with Cons.prems have "item \<in> set items" by simp
    from Cons.IH [OF Cons.prems(1) this Cons.prems(3), of rs] b
    have "PlatformFailed n (name item) e \<in> set lg'" by simp
    with a b show ?thesis by simp
  qed
qed

lemma in_concat_map: "x \<in> set xs \<Longrightarrow> r \<in> set (f x) \<Longrightarrow> r \<in> set (concat (map f xs))"
  by auto

text \<open>
  Claim C8. The aggregate of a cycle is, item after item and platform after platform,
  what each \<open>search\<close> returned, a \<open>search\<close> that raised counting for nothing: the
  exception is caught and logged, the results of every other adapter for that item and
  of all adapters for the other items are in the aggregate, and the aggregate is what
  \<open>run_search_cycle\<close> hands to \<open>save_results\<close>.
\<close>

theorem adapter_failure_is_isolated:
  "snd (items_loop platform_instances items [])
     = concat (map (\<lambda>item. concat (map (\<lambda>p. case snd p item of
                                              Inr (lg, rs) \<Rightarrow> rs | Inl e \<Rightarrow> [])
                                       platform_instances)) items)
   \<and> ((n, a) \<in> set platform_instances \<and> item \<in> set items \<and> a item = Inl e \<longrightarrow>
         PlatformFailed n (name item) e \<in> set (fst (items_loop platform_instances items []))
       \<and> (\<forall>n' a' item' lg rs.
             (n', a') \<in> set platform_instances \<and> item' \<in> set items \<and> a' item' = Inr (lg, rs)
             \<longrightarrow> set rs \<subseteq> set (snd (items_loop platform_instances items []))))
   \<and> (platform_instances \<noteq> [] \<and> read_input_file L input_file = (log1, items) \<and> items \<noteq> []
       \<longrightarrow> run_search_cycle L platform_instances input_file now table
           = (case save_results now table (snd (items_loop platform_instances items [])) of
                Inl e \<Rightarrow> Inl e
              | Inr (table', counts) \<Rightarrow>
                  Inr (log1 @ fst (items_loop platform_instances items []), table')))"
proof -
  have agg: "snd (items_loop platform_instances items [])
     = concat (map (\<lambda>item. concat (map (\<lambda>p. case snd p item of
                                              Inr (lg, rs) \<Rightarrow> rs | Inl e \<Rightarrow> [])
                                       platform_instances)) items)"
    using items_loop_results [of platform_instances items "[]"] by simp
  have sub: "set rs \<subseteq> set (snd (items_loop platform_instances items []))"
    if "(n', a') \<in> set platform_instances" "item' \<in> set items" "a' item' = Inr (lg, rs)"
    for n' a' item' lg rs
  proof
    fix r
    assume "r \<in> set rs"
    with that(3) have "r \<in> set (case snd (n', a') item' of Inr (lg, rs) \<Rightarrow> rs | Inl e \<Rightarrow> [])"
      by simp
    then have "r \<in> set (concat (map (\<lambda>p. case snd p item' of
                                         Inr (lg, rs) \<Rightarrow> rs | Inl e \<Rightarrow> []) platform_instances))"
      by (rule in_concat_map [OF that(1)])
    then show "r \<in> set (snd (items_loop platform_instances items []))"
      unfolding agg by (rule in_concat_map [OF that(2)])
  qed
  have logged: "PlatformFailed n (name item) e
                  \<in> set (fst (items_loop platform_instances items []))"
    if "(n, a) \<in> set platform_instances" "item \<in> set items" "a item = Inl e"
    using items_loop_logs_failure [OF that] .
  have cycle: "run_search_cycle L platform_instances input_file now table
           = (case save_results now table (snd (items_loop platform_instances items [])) of
                Inl e \<Rightarrow> Inl e
              | Inr (table', counts) \<Rightarrow>
                  Inr (log1 @ fst (items_loop platform_instances items []), table'))"
    if "platform_instances \<noteq> []" "read_input_file L input_file = (log1, items)" "items \<noteq> []"
  proof -
    obtain lg2 rs2 where il: "items_loop platform_instances items [] = (lg2, rs2)"
      by (cases "items_loop platform_instances items []")
    show ?thesis
      by (simp add: run_search_cycle_def il that split: sum.splits)
  qed
  show ?thesis
    apply (intro conjI impI allI)
       apply (rule agg)
      apply (elim conjE, erule (2) logged)
     apply (elim conjE, erule (2) sub)
    apply (elim conjE, erule (2) cycle)
    done
qed

theorem adapter_failure_is_isolated_witness:
  "run_search_cycle lib_rtx three_platforms (FileContent rtx_input_text) 7 []
     = Inr ([PlatformFailed ''walmart'' (JStr (ustr ''RTX 3080'')) AttributeError],
            [\<lparr>columns = ebay_result_450, found_timestamp = 7\<rparr>,
             \<lparr>columns = amazon_result_449, found_timestamp = 7\<rparr>])"
proof -
  have r: "read_input_file lib_rtx (FileContent rtx_input_text) = ([], [rtx_item])"
    by (simp add: eval_cycle_defs eval_defs rtx_item_def rtx_input_text_def)
  have n: "three_platforms \<noteq> []" "[rtx_item] \<noteq> []"
    by (simp_all add: three_platforms_def)
  have l: "items_loop three_platforms [rtx_item] []
             = ([PlatformFailed ''walmart'' (JStr (ustr ''RTX 3080'')) AttributeError],
                [ebay_result_450, amazon_result_449])"
    by (simp add: eval_cycle_defs eval_defs rtx_item_def)
  from adapter_failure_is_isolated [THEN conjunct2, THEN conjunct2, rule_format,
      of three_platforms lib_rtx _ "[]" "[rtx_item]" 7 "[]"] r n
  have "run_search_cycle lib_rtx three_platforms (FileContent rtx_input_text) 7 []
          = (case save_results 7 [] (snd (items_loop three_platforms [rtx_item] [])) of
               Inl e \<Rightarrow> Inl e
             | Inr (table', counts) \<Rightarrow>
                 Inr ([] @ fst (items_loop three_platforms [rtx_item] []), table'))"
    by blast
  then show ?thesis
    unfolding l
    by (simp add: save_results_def insert_or_ignore_def link_truthy_def
        ebay_result_450_def amazon_result_449_def)
qed

subsection \<open>Reading the input file\<close>











subsection \<open>Saving results\<close>









subsection \<open>Failures inside a search\<close>

text \<open>
  With a name that is a string, no \<open>search\<close> raises: each returns a log and a sequence
  of results, whatever the network and the page give.
\<close>

lemma search_never_raises:
  assumes "name item = JStr search_term"
  shows "\<exists>lg rs. EbayPlatform_search L got ebay_bs4 item = Inr (lg, rs)"
    and "\<exists>lg rs. AmazonPlatform_search L got amazon_bs4 item = Inr (lg, rs)"
    and "\<exists>lg rs. WalmartPlatform_search L got walmart_bs4 item = Inr (lg, rs)"
    and "\<exists>lg rs. BestbuyPlatform_search L got bestbuy_bs4 item = Inr (lg, rs)"
  using assms
  by (auto simp: EbayPlatform_search_def AmazonPlatform_search_def WalmartPlatform_search_def
      BestbuyPlatform_search_def split: prod.splits option.splits)

text \<open>
  With any other name, which \<open>read_input_file\<close> lets through, \<^verbatim>\<open>quote_plus\<close> raises
  and every \<open>search\<close> passes the TypeError on to its caller.
\<close>

lemma search_raises_on_other_name:
  assumes "\<forall>s. name item \<noteq> JStr s"
  shows "EbayPlatform_search L got ebay_bs4 item = Inl TypeError"
    and "AmazonPlatform_search L got amazon_bs4 item = Inl TypeError"
    and "WalmartPlatform_search L got walmart_bs4 item = Inl TypeError"
    and "BestbuyPlatform_search L got bestbuy_bs4 item = Inl TypeError"
  using assms
  by (cases "name item";
      simp add: EbayPlatform_search_def AmazonPlatform_search_def WalmartPlatform_search_def
        BestbuyPlatform_search_def)+

text \<open>A page on which the selectors match nothing gives the empty sequence.\<close>

lemma empty_page_no_results:
  assumes "name item = JStr search_term"
  shows "\<exists>lg. EbayPlatform_search L got (Some []) item = Inr (lg, [])"
    and "\<exists>lg. AmazonPlatform_search L got (Some []) item = Inr (lg, [])"
    and "\<exists>lg. WalmartPlatform_search L got (Some \<lparr>wm_scripts = [], wm_list_items = []\<rparr>) item
               = Inr (lg, [])"
    and "\<exists>lg. BestbuyPlatform_search L got (Some \<lparr>bb_scripts = [], bb_list_items = []\<rparr>) item
               = Inr (lg, [])"
  using assms
  by (auto simp: EbayPlatform_search_def AmazonPlatform_search_def WalmartPlatform_search_def
      BestbuyPlatform_search_def parse_html_def split: prod.splits option.splits)

text \<open>
  Claim C5 on Best Buy: a JSON-LD list whose first entry is a number and whose second is
  a product. The \<^verbatim>\<open>get\<close> on the number raises before the inner \<^verbatim>\<open>try\<close> is entered; the
  handler of the script loop takes it, and the product after it is never looked at. The
  same product alone is emitted.
\<close>

theorem bestbuy_bad_entry_aborts_block:
  "BestbuyPlatform_search lib_ld (Received (page (ustr ''<html></html>'')))
     (Some \<lparr>bb_scripts = [ld_number_first_text], bb_list_items = []\<rparr>) rtx_item
     = Inr ([BestbuyScriptError AttributeError], [])
   \<and> BestbuyPlatform_search lib_ld (Received (page (ustr ''<html></html>'')))
       (Some \<lparr>bb_scripts = [ld_product_text], bb_list_items = []\<rparr>) rtx_item
     = Inr ([], [bestbuy_result_449])"
  by (simp add: eval_bestbuy_defs eval_ld_defs rtx_item_def)

end
